theory Spec2Isabelle
  imports Complex_Main
begin

section \<open>JavaScript numbers\<close>

text \<open>
  A JavaScript number is a finite double, one of the two infinities, or NaN. A finite
  double is written \<open>Num x\<close> with \<open>x\<close> its real value. The sign of zero is not
  represented (a zero divisor counts as \<open>+0\<close>).
\<close>

datatype jsnum = Num real | PosInf | NegInf | NaN

text \<open>
  What the platform contributes is a parameter of the model:
  \<^item> \<open>rnd\<close>, the rounding of the exact real result of \<open>+\<close>, \<open>-\<close>, \<open>*\<close>, \<open>/\<close> on
    finite operands, or of a decimal literal, to a double: the nearest double, or an
    infinity when the result overflows;
  \<^item> \<open>math_pow\<close>, the result of \<open>Math.pow\<close> for a finite non-zero base and a finite
    non-zero exponent, where it is not NaN (ECMAScript leaves its accuracy to the
    implementation);
  \<^item> \<open>parseFloat\<close> and \<open>ToNumber\<close> on a non-empty string, \<open>Number::toString\<close> and
    \<open>Number.prototype.toFixed\<close>.
  Every statement below holds for every such environment, unless it names the property of
  the environment it needs.
\<close>

record js_env =
  rnd :: "real \<Rightarrow> jsnum"
  math_pow :: "real \<Rightarrow> real \<Rightarrow> jsnum"
  parseFloat :: "string \<Rightarrow> jsnum"
  stringToNumber :: "string \<Rightarrow> jsnum"
  numberToString :: "jsnum \<Rightarrow> string"
  toFixed :: "jsnum \<Rightarrow> nat \<Rightarrow> string"

fun js_isNaN :: "jsnum \<Rightarrow> bool" where
  "js_isNaN NaN = True"
| "js_isNaN _ = False"

fun js_isFinite :: "jsnum \<Rightarrow> bool" where
  "js_isFinite (Num _) = True"
| "js_isFinite _ = False"

text \<open>Negation is exact.\<close>

fun js_neg :: "jsnum \<Rightarrow> jsnum" where
  "js_neg (Num a) = Num (- a)"
| "js_neg PosInf = NegInf"
| "js_neg NegInf = PosInf"
| "js_neg NaN = NaN"

fun js_add :: "js_env \<Rightarrow> jsnum \<Rightarrow> jsnum \<Rightarrow> jsnum" where
  "js_add env NaN _ = NaN"
| "js_add env _ NaN = NaN"
| "js_add env (Num a) (Num b) = rnd env (a + b)"
| "js_add env PosInf NegInf = NaN"
| "js_add env NegInf PosInf = NaN"
| "js_add env PosInf _ = PosInf"
| "js_add env _ PosInf = PosInf"
| "js_add env NegInf _ = NegInf"
| "js_add env _ NegInf = NegInf"

definition js_sub :: "js_env \<Rightarrow> jsnum \<Rightarrow> jsnum \<Rightarrow> jsnum" where
  "js_sub env a b = js_add env a (js_neg b)"

text \<open>The infinity whose sign is the sign of a non-zero real.\<close>

definition inf_of_sign :: "real \<Rightarrow> jsnum" where
  "inf_of_sign s = (if 0 < s then PosInf else NegInf)"

fun js_mul :: "js_env \<Rightarrow> jsnum \<Rightarrow> jsnum \<Rightarrow> jsnum" where
  "js_mul env NaN _ = NaN"
| "js_mul env _ NaN = NaN"
| "js_mul env (Num a) (Num b) = rnd env (a * b)"
| "js_mul env (Num a) PosInf = (if a = 0 then NaN else inf_of_sign a)"
| "js_mul env (Num a) NegInf = (if a = 0 then NaN else inf_of_sign (- a))"
| "js_mul env PosInf (Num b) = (if b = 0 then NaN else inf_of_sign b)"
| "js_mul env NegInf (Num b) = (if b = 0 then NaN else inf_of_sign (- b))"
| "js_mul env PosInf PosInf = PosInf"
| "js_mul env NegInf NegInf = PosInf"
| "js_mul env PosInf NegInf = NegInf"
| "js_mul env NegInf PosInf = NegInf"

fun js_div :: "js_env \<Rightarrow> jsnum \<Rightarrow> jsnum \<Rightarrow> jsnum" where
  "js_div env NaN _ = NaN"
| "js_div env _ NaN = NaN"
| "js_div env (Num a) (Num b) =
     (if b \<noteq> 0 then rnd env (a / b) else if a = 0 then NaN else inf_of_sign a)"
| "js_div env (Num a) _ = Num 0"
| "js_div env PosInf (Num b) = (if 0 \<le> b then PosInf else NegInf)"
| "js_div env NegInf (Num b) = (if 0 \<le> b then NegInf else PosInf)"
| "js_div env _ _ = NaN"

text \<open>The comparisons \<open>a >= b\<close>, \<open>a <= b\<close> and \<open>a < b\<close>; with a NaN operand they are false.\<close>

fun js_ge :: "jsnum \<Rightarrow> jsnum \<Rightarrow> bool" where
  "js_ge NaN _ = False"
| "js_ge _ NaN = False"
| "js_ge (Num a) (Num b) = (b \<le> a)"
| "js_ge PosInf _ = True"
| "js_ge _ NegInf = True"
| "js_ge _ _ = False"



text \<open>A real that is a whole number, and a whole number that is odd.\<close>

definition is_whole :: "real \<Rightarrow> bool" where
  "is_whole e \<longleftrightarrow> of_int \<lfloor>e\<rfloor> = e"

definition is_odd_whole :: "real \<Rightarrow> bool" where
  "is_odd_whole e \<longleftrightarrow> is_whole e \<and> odd \<lfloor>e\<rfloor>"

text \<open>
  \<open>Math.pow(base, exponent)\<close>, the cases of ECMAScript's \<open>Number::exponentiate\<close> in
  their order. A negative base with an exponent that is not whole gives NaN; every other
  finite non-zero base with a finite non-zero exponent gives what the platform computes.
\<close>

fun js_pow :: "js_env \<Rightarrow> jsnum \<Rightarrow> jsnum \<Rightarrow> jsnum" where
  "js_pow env _ NaN = NaN"
| "js_pow env b (Num e) =
     (if e = 0 then Num 1
      else case b of
        NaN \<Rightarrow> NaN
      | PosInf \<Rightarrow> (if 0 < e then PosInf else Num 0)
      | NegInf \<Rightarrow> (if 0 < e then (if is_odd_whole e then NegInf else PosInf) else Num 0)
      | Num x \<Rightarrow>
          (if x = 0 then (if 0 < e then Num 0 else PosInf)
           else if x < 0 \<and> \<not> is_whole e then NaN
           else math_pow env x e))"
| "js_pow env b PosInf =
     (case b of
        NaN \<Rightarrow> NaN
      | PosInf \<Rightarrow> PosInf
      | NegInf \<Rightarrow> PosInf
      | Num x \<Rightarrow> (if 1 < \<bar>x\<bar> then PosInf else if \<bar>x\<bar> = 1 then NaN else Num 0))"
| "js_pow env b NegInf =
     (case b of
        NaN \<Rightarrow> NaN
      | PosInf \<Rightarrow> Num 0
      | NegInf \<Rightarrow> Num 0
      | Num x \<Rightarrow> (if 1 < \<bar>x\<bar> then Num 0 else if \<bar>x\<bar> = 1 then NaN else PosInf))"

section \<open>The loss formula\<close>

text \<open>
  \<open>computeLoss\<close> of the current calculator: inflation erosion plus opportunity cost,
  both in today's money.
\<close>

definition computeLoss :: "js_env \<Rightarrow> jsnum \<Rightarrow> jsnum \<Rightarrow> jsnum \<Rightarrow> jsnum \<Rightarrow> jsnum" where
  "computeLoss env amount inflationDecimal savingsRateDecimal years =
     (let factor = js_pow env (js_add env (Num 1) inflationDecimal) years;
          inflationErosion =
            js_mul env amount (js_sub env (Num 1) (js_div env (Num 1) factor));
          opportunityCost =
            js_mul env (js_div env amount factor)
              (js_sub env (js_pow env (js_add env (Num 1) savingsRateDecimal) years) (Num 1))
      in js_add env inflationErosion opportunityCost)"

text \<open>
  \<open>computeLoss\<close> of the first version of the calculator (\<open>app.js\<close>): the opportunity
  cost alone.
\<close>

definition computeLoss_v0 :: "js_env \<Rightarrow> jsnum \<Rightarrow> jsnum \<Rightarrow> jsnum \<Rightarrow> jsnum \<Rightarrow> jsnum" where
  "computeLoss_v0 env amount inflationDecimal savingsRateDecimal years =
     (let factor = js_pow env (js_add env (Num 1) inflationDecimal) years;
          growthFactor = js_pow env (js_add env (Num 1) savingsRateDecimal) years
      in js_mul env (js_div env amount factor) (js_sub env growthFactor (Num 1)))"

section \<open>Values of the country dataset\<close>

text \<open>
  A value of the dataset (\<open>data/countries.json\<close>) that is not an object: absent,
  \<open>null\<close>, a number or a string.
\<close>

datatype jsval = JUndefined | JNull | JNumber jsnum | JString string

text \<open>
  A field that should hold an object holds one, or holds a value that is none (a record
  without the field holds \<open>Prim JUndefined\<close>).
\<close>

datatype 'a field = Obj 'a | Prim jsval

text \<open>Truthiness, as \<open>&&\<close>, \<open>||\<close> and \<open>!\<close> test it.\<close>

fun js_truthy :: "jsval \<Rightarrow> bool" where
  "js_truthy JUndefined = False"
| "js_truthy JNull = False"
| "js_truthy (JNumber n) = (n \<noteq> Num 0 \<and> n \<noteq> NaN)"
| "js_truthy (JString s) = (s \<noteq> [])"

text \<open>
  \<open>x && x.f\<close>: the property of an object; a falsy value itself; \<open>undefined\<close> for a
  truthy number or string, which has no such property.
\<close>

fun and_get :: "'a field \<Rightarrow> ('a \<Rightarrow> jsval) \<Rightarrow> jsval" where
  "and_get (Obj x) f = f x"
| "and_get (Prim v) f = (if js_truthy v then JUndefined else v)"

text \<open>\<open>x.f\<close> where \<open>x\<close> is known to be truthy.\<close>

fun get :: "'a field \<Rightarrow> ('a \<Rightarrow> jsval) \<Rightarrow> jsval" where
  "get (Obj x) f = f x"
| "get (Prim v) f = JUndefined"

text \<open>\<open>!x\<close> for such a field.\<close>

fun js_falsy :: "'a field \<Rightarrow> bool" where
  "js_falsy (Obj x) = False"
| "js_falsy (Prim v) = (\<not> js_truthy v)"

text \<open>\<open>String(value)\<close>.\<close>

fun js_String :: "js_env \<Rightarrow> jsval \<Rightarrow> string" where
  "js_String env JUndefined = ''undefined''"
| "js_String env JNull = ''null''"
| "js_String env (JNumber n) = numberToString env n"
| "js_String env (JString s) = s"

text \<open>
  \<open>ToNumber(value)\<close>, as the operator \<open>/\<close> applies it to an operand; the empty
  string is \<open>0\<close>.
\<close>

fun js_ToNumber :: "js_env \<Rightarrow> jsval \<Rightarrow> jsnum" where
  "js_ToNumber env JUndefined = NaN"
| "js_ToNumber env JNull = Num 0"
| "js_ToNumber env (JNumber n) = n"
| "js_ToNumber env (JString s) = (if s = [] then Num 0 else stringToNumber env s)"

text \<open>
  \<open>parseFloat(value)\<close> for a value that is not a number: \<open>undefined\<close>, \<open>null\<close> and
  the empty string have no numeric prefix and give NaN.
\<close>

fun js_parseFloat :: "js_env \<Rightarrow> jsval \<Rightarrow> jsnum" where
  "js_parseFloat env JUndefined = NaN"
| "js_parseFloat env JNull = NaN"
| "js_parseFloat env (JNumber n) = n"
| "js_parseFloat env (JString s) = (if s = [] then NaN else parseFloat env s)"

text \<open>
  \<open>parseFiniteNumber\<close>: a number is taken as it is, anything else goes through
  \<open>parseFloat\<close>; the result is the finite number, or \<open>null\<close> (\<open>None\<close>).
\<close>

definition parseFiniteNumber :: "js_env \<Rightarrow> jsval \<Rightarrow> real option" where
  "parseFiniteNumber env v =
     (let num = (case v of JNumber n \<Rightarrow> n | _ \<Rightarrow> js_parseFloat env v)
      in case num of Num x \<Rightarrow> Some x | _ \<Rightarrow> None)"

record cpi_data =
  latest :: jsval
  latestDate :: jsval
  previous :: jsval
  previousDate :: jsval

record rate_data =
  rate_value :: jsval
  rate_date :: jsval

record country =
  country_id :: string
  country_name :: jsval
  currencyCode :: string
  currencySymbol :: "string option"
  cpi :: "cpi_data field"
  rate :: "rate_data field"

text \<open>The derived rates, \<open>{inflationRate, interestRate, hasRate}\<close>.\<close>

record inputs =
  inflationRate :: jsnum
  interestRate :: jsnum
  hasRate :: bool

text \<open>
  \<open>FALLBACK_COUNTRIES[0]\<close>. The literal \<open>102.1\<close> denotes the double nearest to it;
  \<open>100.0\<close> and \<open>4.0\<close> are doubles.
\<close>

definition fallbackUS :: "js_env \<Rightarrow> country" where
  "fallbackUS env =
     \<lparr>country_id = ''US'', country_name = JString ''United States'',
      currencyCode = ''USD'', currencySymbol = Some ''$'',
      cpi = Obj \<lparr>latest = JNumber (rnd env (1021 / 10)), latestDate = JString ''2024-M12'',
                 previous = JNumber (Num 100), previousDate = JString ''2023-M12''\<rparr>,
      rate = Obj \<lparr>rate_value = JNumber (Num 4), rate_date = JString ''2024-M12''\<rparr>\<rparr>"

section \<open>Rate derivation\<close>

text \<open>\<open>country && country.cpi\<close> and \<open>country && country.rate\<close>.\<close>

definition cpi_of :: "country option \<Rightarrow> cpi_data field" where
  "cpi_of c = (case c of None \<Rightarrow> Prim JNull | Some c' \<Rightarrow> cpi c')"

definition rate_of :: "country option \<Rightarrow> rate_data field" where
  "rate_of c = (case c of None \<Rightarrow> Prim JNull | Some c' \<Rightarrow> rate c')"

definition getInputs :: "js_env \<Rightarrow> country option \<Rightarrow> inputs option" where
  "getInputs env c =
     (let cpi = cpi_of c;
          cpiLatest = parseFiniteNumber env (and_get cpi latest);
          cpiPrevious = parseFiniteNumber env (and_get cpi previous)
      in case (cpiLatest, cpiPrevious) of
           (Some l, Some p) \<Rightarrow>
             if l \<le> 0 \<or> p \<le> 0 then None
             else
               let inflationRate = js_sub env (js_div env (Num l) (Num p)) (Num 1);
                   rateValue = parseFiniteNumber env (and_get (rate_of c) rate_value);
                   hasRate = (rateValue \<noteq> None)
               in Some \<lparr>inflationRate = inflationRate,
                         interestRate = (case rateValue of
                                           Some v \<Rightarrow> js_div env (Num v) (Num 100)
                                         | None \<Rightarrow> Num 0),
                         hasRate = hasRate\<rparr>
         | _ \<Rightarrow> None)"

section \<open>The calculation pipeline\<close>

text \<open>
  What a result element shows: the placeholder dash, or the text \<open>formatMoney\<close> makes
  of the number and currency symbol handed to it.
\<close>

datatype cell = Dash | Money jsnum string

text \<open>
  The part of the page that \<open>runCalculation\<close> writes: the empty-state headline, whether
  the interest explanation is hidden, and the three result elements.
\<close>

record dom =
  emptyState :: bool
  interestExplanationHidden :: bool
  loss1y :: cell
  loss5y :: cell
  loss10y :: cell

definition setEmptyState :: "bool \<Rightarrow> dom \<Rightarrow> dom" where
  "setEmptyState empty_flag d = d\<lparr>emptyState := empty_flag\<rparr>"

definition toggleInterestExplanation :: "bool \<Rightarrow> dom \<Rightarrow> dom" where
  "toggleInterestExplanation has_rate d = d\<lparr>interestExplanationHidden := \<not> has_rate\<rparr>"

definition showDashes :: "dom \<Rightarrow> dom" where
  "showDashes d = d\<lparr>loss1y := Dash, loss5y := Dash, loss10y := Dash\<rparr>"

text \<open>
  \<open>animateResultNumbers\<close>, once its timers have fired. The three values are numbers,
  so the test \<open>values[k] != null\<close> holds for each of them (NaN and the infinities are
  not \<open>null\<close>) and each goes to \<open>formatMoney\<close>.
\<close>

definition animateResultNumbers :: "jsnum \<times> jsnum \<times> jsnum \<Rightarrow> string \<Rightarrow> dom \<Rightarrow> dom" where
  "animateResultNumbers values symb d =
     (case values of (v1, v5, v10) \<Rightarrow>
        d\<lparr>loss1y := Money v1 symb, loss5y := Money v5 symb, loss10y := Money v10 symb\<rparr>)"

text \<open>
  \<open>runCalculation\<close> of the current calculator. Its arguments are what it reads from the
  page: \<open>amount\<close> is the number \<open>parseFloat\<close> made of the amount field, \<open>c\<close> the
  record \<open>getCountry\<close> found (or \<open>null\<close>).
\<close>

definition runCalculation :: "js_env \<Rightarrow> jsnum \<Rightarrow> country option \<Rightarrow> dom \<Rightarrow> dom" where
  "runCalculation env amount c d =
     (let hasAmount = (\<not> js_isNaN amount \<and> js_ge amount (Num 0)) in
      if \<not> hasAmount then showDashes (setEmptyState True d)
      else
        let d1 = setEmptyState False d in
        case c of
          None \<Rightarrow> showDashes (toggleInterestExplanation False d1)
        | Some c' \<Rightarrow>
            let inputs = getInputs env (Some c');
                symb = (case currencySymbol c' of None \<Rightarrow> [] | Some s \<Rightarrow> s)
            in case inputs of
                 None \<Rightarrow> showDashes (toggleInterestExplanation False d1)
               | Some inp \<Rightarrow>
                   let d2 = toggleInterestExplanation (hasRate inp) d1;
                       values =
                         (js_add env (js_mul env amount (inflationRate inp))
                            (js_mul env amount (interestRate inp)),
                          computeLoss env amount (inflationRate inp) (interestRate inp) (Num 5),
                          computeLoss env amount (inflationRate inp) (interestRate inp) (Num 10))
                   in animateResultNumbers values symb d2)"

text \<open>The country record of the first version: direct annual percentages.\<close>

record country_v0 =
  id_v0 :: string
  name_v0 :: jsval
  currencyCode_v0 :: string
  currencySymbol_v0 :: "string option"
  inflationAnnual :: jsval
  savingsRateAnnual :: jsval

text \<open>\<open>runCalculation\<close> of the first version (\<open>app.js\<close>).\<close>

definition runCalculation_v0 :: "js_env \<Rightarrow> jsnum \<Rightarrow> country_v0 option \<Rightarrow> dom \<Rightarrow> dom" where
  "runCalculation_v0 env amount c d =
     (let hasAmount = (\<not> js_isNaN amount \<and> js_ge amount (Num 0)) in
      if \<not> hasAmount then showDashes (setEmptyState True d)
      else
        let d1 = setEmptyState False d in
        case c of
          None \<Rightarrow> showDashes d1
        | Some c' \<Rightarrow>
            let i = js_div env (js_ToNumber env (inflationAnnual c')) (Num 100);
                r = js_div env (js_ToNumber env (savingsRateAnnual c')) (Num 100);
                symb = (case currencySymbol_v0 c' of None \<Rightarrow> [] | Some s \<Rightarrow> s);
                values =
                  (computeLoss_v0 env amount i r (Num 1),
                   computeLoss_v0 env amount i r (Num 5),
                   computeLoss_v0 env amount i r (Num 10))
            in animateResultNumbers values symb d1)"

section \<open>The explanation popup\<close>

text \<open>\<open>s.replace(/c/g, r)\<close> for a single character \<open>c\<close>.\<close>

definition replace_all :: "char \<Rightarrow> string \<Rightarrow> string \<Rightarrow> string" where
  "replace_all c r s = concat (map (\<lambda>x. if x = c then r else [x]) s)"

definition escapeHtml :: "js_env \<Rightarrow> jsval \<Rightarrow> string" where
  "escapeHtml env v =
     replace_all (CHR 0x27) ''&#39;''
       (replace_all (CHR 0x22) ''&quot;''
          (replace_all CHR ''>'' ''&gt;''
             (replace_all CHR ''<'' ''&lt;''
                (replace_all CHR ''&'' ''&amp;'' (js_String env v)))))"

text \<open>
  \<open>s.replace(/\.?0+$/, '')\<close>: the trailing zeros, if there is one, go with a dot right
  before them.
\<close>

definition strip_zeros :: "string \<Rightarrow> string" where
  "strip_zeros s =
     (let r = dropWhile (\<lambda>x. x = CHR ''0'') (rev s) in
      if r = rev s then s
      else case r of
             [] \<Rightarrow> []
           | x # r' \<Rightarrow> (if x = CHR ''.'' then rev r' else rev r))"

definition formatPercent :: "js_env \<Rightarrow> jsnum \<Rightarrow> string" where
  "formatPercent env valueDecimal = strip_zeros (toFixed env (js_mul env valueDecimal (Num 100)) 3)"

text \<open>A finite number or \<open>null\<close>, as a value to print.\<close>

definition opt_val :: "real option \<Rightarrow> jsval" where
  "opt_val x = (case x of None \<Rightarrow> JNull | Some v \<Rightarrow> JNumber (Num v))"

definition popupPlaceholder :: string where
  \<open>popupPlaceholder =
     ''<h3 id="popup-title">How these numbers are calculated</h3><p>Select a country to see concrete inputs and formulas.</p>''\<close>

definition rateUnavailableNote :: string where
  "rateUnavailableNote =
     ''Short-term interest rate is unavailable for this country in the current IMF dataset. This calculator uses inflation-only mode (interestRate = 0).''"

text \<open>
  The interest section of the popup: the rate with its formula and substitution, or the
  note alone. (\<open>country.rate.date\<close> is read only when the rate value is a number, so
  \<open>country.rate\<close> is an object, or the number \<open>0\<close>, which has no date.)
\<close>

definition interestSection :: "js_env \<Rightarrow> country \<Rightarrow> inputs \<Rightarrow> string" where
  \<open>interestSection env c inp =
     (let rateValue = parseFiniteNumber env (and_get (rate c) rate_value);
          hasRate = (rateValue \<noteq> None);
          interestFormula = ''interestRate = rateValue / 100'';
          interestSubstitution =
            (if hasRate
             then ''interestRate = '' @ js_String env (opt_val rateValue) @ '' / 100 = ''
                    @ formatPercent env (interestRate inp) @ ''%''
             else rateUnavailableNote)
      in ''<div class="popup-section">''
         @ ''<h4>Interest input from IMF short-term rate</h4>''
         @ (if hasRate
            then ''<p>Rate value: <strong>'' @ escapeHtml env (opt_val rateValue) @ ''%</strong> (''
                   @ escapeHtml env (get (rate c) rate_date)
                   @ '')</p>''
                 @ ''<p><code>'' @ escapeHtml env (JString interestFormula) @ ''</code></p>''
                 @ ''<p><code>'' @ escapeHtml env (JString interestSubstitution) @ ''</code></p>''
            else ''<p>'' @ escapeHtml env (JString interestSubstitution) @ ''</p>'')
         @ ''</div>'')\<close>

definition inflationSection :: "js_env \<Rightarrow> cpi_data field \<Rightarrow> inputs \<Rightarrow> string" where
  \<open>inflationSection env cp inp =
     (let cpiLatest = parseFiniteNumber env (get cp latest);
          cpiPrevious = parseFiniteNumber env (get cp previous);
          inflationFormula = ''inflationRate = (latestCPI / previousCPI) - 1'';
          inflationSubstitution =
            ''inflationRate = ('' @ js_String env (opt_val cpiLatest) @ '' / ''
              @ js_String env (opt_val cpiPrevious) @ '') - 1 = ''
              @ formatPercent env (inflationRate inp) @ ''%''
      in ''<div class="popup-section">''
         @ ''<h4>Inflation input from IMF CPI index</h4>''
         @ ''<p>Latest CPI: <strong>'' @ escapeHtml env (opt_val cpiLatest) @ ''</strong> (''
           @ escapeHtml env (get cp latestDate) @ '')</p>''
         @ ''<p>Previous CPI: <strong>'' @ escapeHtml env (opt_val cpiPrevious) @ ''</strong> (''
           @ escapeHtml env (get cp previousDate) @ '')</p>''
         @ ''<p><code>'' @ escapeHtml env (JString inflationFormula) @ ''</code></p>''
         @ ''<p><code>'' @ escapeHtml env (JString inflationSubstitution) @ ''</code></p>''
         @ ''</div>'')\<close>

definition formulaSection :: "js_env \<Rightarrow> string" where
  \<open>formulaSection env =
     (let oneYearFormula = ''1-year loss = P * i + P * r'';
          longHorizonFormula = ''loss = P * (1 - 1/(1+i)^n) + (P/(1+i)^n) * ((1+r)^n - 1)'';
          variables = ''P = amount, i = inflationRate, r = interestRate, n = years''
      in ''<div class="popup-section">''
         @ ''<h4>Loss formulas used on this page</h4>''
         @ ''<p><code>'' @ escapeHtml env (JString oneYearFormula) @ ''</code></p>''
         @ ''<p><code>'' @ escapeHtml env (JString longHorizonFormula) @ ''</code></p>''
         @ ''<p>'' @ escapeHtml env (JString variables) @ ''</p>''
         @ ''<p>Total loss = purchasing power erosion from inflation + missed growth from not earning interest.</p>''
         @ ''</div>''
         @ ''<p class="popup-source">Based on <a href="https://data.imf.org" target="_blank" rel="noopener noreferrer">IMF Data</a></p>'')\<close>

text \<open>
  \<open>buildHowCalculatedPopup\<close>: the placeholder without a country, CPI data or
  inputs; otherwise the title and the three sections, in the order of the source's
  concatenation.
\<close>

definition buildHowCalculatedPopup :: "js_env \<Rightarrow> country option \<Rightarrow> inputs option \<Rightarrow> string" where
  \<open>buildHowCalculatedPopup env c inputs =
     (case c of
        None \<Rightarrow> popupPlaceholder
      | Some c' \<Rightarrow>
          (if js_falsy (cpi c') then popupPlaceholder
           else
             (case inputs of
                None \<Rightarrow> popupPlaceholder
              | Some inp \<Rightarrow>
                  ''<h3 id="popup-title">How these numbers are calculated for ''
                    @ escapeHtml env (country_name c') @ ''</h3>''
                  @ inflationSection env (cpi c') inp
                  @ interestSection env c' inp
                  @ formulaSection env)))\<close>

text \<open>\<open>openPopup\<close>: the content it gives the popup for the selected country.\<close>

definition openPopup :: "js_env \<Rightarrow> country option \<Rightarrow> string" where
  "openPopup env c =
     buildHowCalculatedPopup env c (case c of None \<Rightarrow> None | Some c' \<Rightarrow> getInputs env (Some c'))"

section \<open>Notions of the specification\<close>

text \<open>
  A real that rounding leaves as it is: with the rounding of doubles, a real that is a
  finite double.
\<close>

definition exact :: "js_env \<Rightarrow> real \<Rightarrow> bool" where
  "exact env x \<longleftrightarrow> rnd env x = Num x"


text \<open>
  Rounding is accurate to fifteen digits between a thousandth and a thousand (doubles are,
  to nearly sixteen).
\<close>

definition accurate :: "js_env \<Rightarrow> bool" where
  "accurate env \<longleftrightarrow>
     (\<forall>x. 1 / 1000 \<le> \<bar>x\<bar> \<and> \<bar>x\<bar> \<le> 1000
          \<longrightarrow> (\<exists>y. rnd env x = Num y \<and> \<bar>y - x\<bar> \<le> \<bar>x\<bar> / 1000000000000000))"

text \<open>
  The power \<open>b ^ n\<close> of the specification's formulas, over the reals: the real power
  of a non-negative base, and the integer power of a negative base (meaningful when
  \<open>n\<close> is a whole number).
\<close>

definition spec_pow :: "real \<Rightarrow> real \<Rightarrow> real" where
  "spec_pow b n = (if 0 \<le> b then b powr n else b powi \<lfloor>n\<rfloor>)"

text \<open>
  The closed form of the specification over the reals: inflation erosion plus opportunity
  cost, \<open>P * (1 - 1/(1+i)^n) + (P/(1+i)^n) * ((1+r)^n - 1)\<close>.
\<close>

definition fullLoss :: "real \<Rightarrow> real \<Rightarrow> real \<Rightarrow> real \<Rightarrow> real" where
  "fullLoss P i r n =
     P * (1 - 1 / spec_pow (1 + i) n) + (P / spec_pow (1 + i) n) * (spec_pow (1 + r) n - 1)"

text \<open>
  An evaluation of the closed form in which nothing is rounded: the two powers are the
  real powers, and each sum, difference, product and quotient on the way is a finite
  double.
\<close>

definition exact_loss_steps :: "js_env \<Rightarrow> real \<Rightarrow> real \<Rightarrow> real \<Rightarrow> real \<Rightarrow> bool" where
  "exact_loss_steps env P i r n \<longleftrightarrow>
     (let g = spec_pow (1 + i) n; h = spec_pow (1 + r) n in
        exact env (1 + i) \<and> exact env (1 + r)
      \<and> math_pow env (1 + i) n = Num g
      \<and> (1 + r \<noteq> 0 \<longrightarrow> math_pow env (1 + r) n = Num h)
      \<and> exact env (1 / g) \<and> exact env (1 - 1 / g) \<and> exact env (P * (1 - 1 / g))
      \<and> exact env (P / g) \<and> exact env (h - 1) \<and> exact env (P / g * (h - 1))
      \<and> exact env (P * (1 - 1 / g) + P / g * (h - 1)))"

text \<open>
  A CPI index value that is missing, not finite, or not positive. A string counts by the
  number \<open>parseFloat\<close> reads from it.
\<close>

fun cpi_unusable :: "js_env \<Rightarrow> jsval \<Rightarrow> bool" where
  "cpi_unusable env JUndefined = True"
| "cpi_unusable env JNull = True"
| "cpi_unusable env (JNumber n) = (case n of Num x \<Rightarrow> x \<le> 0 | _ \<Rightarrow> True)"
| "cpi_unusable env (JString s) =
     (s = [] \<or> (case parseFloat env s of Num x \<Rightarrow> x \<le> 0 | _ \<Rightarrow> True))"

text \<open>
  A field that holds the finite number \<open>x\<close>: as a number, or as a string from which
  \<open>parseFloat\<close> reads \<open>x\<close>.
\<close>

fun holds_number :: "js_env \<Rightarrow> jsval \<Rightarrow> real \<Rightarrow> bool" where
  "holds_number env (JNumber n) x = (n = Num x)"
| "holds_number env (JString s) x = (s \<noteq> [] \<and> parseFloat env s = Num x)"
| "holds_number env _ x = False"

text \<open>A field that is absent, or whose number is not finite.\<close>

fun absent_or_nonfinite :: "js_env \<Rightarrow> jsval \<Rightarrow> bool" where
  "absent_or_nonfinite env JUndefined = True"
| "absent_or_nonfinite env JNull = True"
| "absent_or_nonfinite env (JNumber n) = (\<not> js_isFinite n)"
| "absent_or_nonfinite env (JString s) = (s = [] \<or> \<not> js_isFinite (parseFloat env s))"

text \<open>An amount that the page accepts: not NaN and not negative.\<close>

fun amount_accepted :: "jsnum \<Rightarrow> bool" where
  "amount_accepted (Num a) = (0 \<le> a)"
| "amount_accepted PosInf = True"
| "amount_accepted NegInf = False"
| "amount_accepted NaN = False"

text \<open>
  A country record whose CPI data cannot be used: they are no object, or one of the two
  index values is unusable.
\<close>

definition cpi_data_unusable :: "js_env \<Rightarrow> country \<Rightarrow> bool" where
  "cpi_data_unusable env c =
     (case cpi c of
        Prim v \<Rightarrow> True
      | Obj cp \<Rightarrow> cpi_unusable env (latest cp) \<or> cpi_unusable env (previous cp))"

section \<open>Records and surroundings of the examples\<close>

text \<open>
  An environment that rounds nothing and whose powers are the real powers. On inputs
  where every intermediate result is a finite double, as in the examples below, its
  results are those of double arithmetic. Its string conversions are never applied there.
\<close>

definition exact_env :: js_env where
  "exact_env =
     \<lparr>rnd = Num, math_pow = (\<lambda>b e. Num (spec_pow b e)),
      parseFloat = (\<lambda>s. NaN), stringToNumber = (\<lambda>s. NaN),
      numberToString = (\<lambda>n. []), toFixed = (\<lambda>n k. [])\<rparr>"

text \<open>A page in its empty state.\<close>

definition empty_page :: dom where
  "empty_page =
     \<lparr>emptyState = True, interestExplanationHidden = True,
      loss1y = Dash, loss5y = Dash, loss10y = Dash\<rparr>"

text \<open>A record like the fallback record, with given CPI values and a given rate field.\<close>

definition example_country :: "jsval \<Rightarrow> jsval \<Rightarrow> rate_data field \<Rightarrow> country" where
  "example_country l p r =
     \<lparr>country_id = ''US'', country_name = JString ''United States'',
      currencyCode = ''USD'', currencySymbol = Some ''$'',
      cpi = Obj \<lparr>latest = l, latestDate = JString ''2024-M12'',
                 previous = p, previousDate = JString ''2023-M12''\<rparr>,
      rate = r\<rparr>"

definition example_rate :: "real \<Rightarrow> rate_data field" where
  "example_rate v = Obj \<lparr>rate_value = JNumber (Num v), rate_date = JString ''2024-M12''\<rparr>"

section \<open>The example environment\<close>

lemma rnd_exact_env: "rnd exact_env x = Num x"
  by (simp add: exact_env_def)

lemma math_pow_exact_env: "math_pow exact_env b e = Num (spec_pow b e)"
  by (simp add: exact_env_def)

lemma exact_exact_env: "exact exact_env x"
  by (simp add: exact_def rnd_exact_env)

lemma exact_loss_steps_exact_env: "exact_loss_steps exact_env P i r n"
  by (simp add: exact_loss_steps_def Let_def exact_exact_env math_pow_exact_env)

lemma accurate_exact_env: "accurate exact_env"
  by (simp add: accurate_def rnd_exact_env)


section \<open>The closed form where nothing is rounded\<close>

lemma js_pow_spec:
  assumes "0 < n" and "0 \<le> b \<or> is_whole n" and "b \<noteq> 0 \<longrightarrow> math_pow env b n = Num (spec_pow b n)"
  shows "js_pow env (Num b) (Num n) = Num (spec_pow b n)"
  using assms by (auto simp: spec_pow_def)

lemma spec_pow_pos: "0 < b \<Longrightarrow> 0 < spec_pow b n"
  by (simp add: spec_pow_def)

lemma computeLoss_exact:
  assumes "0 < 1 + i" and "0 < n" and "0 \<le> 1 + r \<or> is_whole n"
    and "exact_loss_steps env P i r n"
  shows "computeLoss env (Num P) (Num i) (Num r) (Num n) = Num (fullLoss P i r n)"
    and "js_pow env (js_add env (Num 1) (Num i)) (Num n) = Num (spec_pow (1 + i) n)"
proof -
  let ?g = "spec_pow (1 + i) n" and ?h = "spec_pow (1 + r) n"
  from assms(4) have st:
    "rnd env (1 + i) = Num (1 + i)" "rnd env (1 + r) = Num (1 + r)"
    "math_pow env (1 + i) n = Num ?g"
    "1 + r \<noteq> 0 \<longrightarrow> math_pow env (1 + r) n = Num ?h"
    "rnd env (1 / ?g) = Num (1 / ?g)" "rnd env (1 - 1 / ?g) = Num (1 - 1 / ?g)"
    "rnd env (P * (1 - 1 / ?g)) = Num (P * (1 - 1 / ?g))"
    "rnd env (P / ?g) = Num (P / ?g)" "rnd env (?h - 1) = Num (?h - 1)"
    "rnd env (P / ?g * (?h - 1)) = Num (P / ?g * (?h - 1))"
    "rnd env (P * (1 - 1 / ?g) + P / ?g * (?h - 1)) = Num (P * (1 - 1 / ?g) + P / ?g * (?h - 1))"
    by (simp_all add: exact_loss_steps_def Let_def exact_def)
  have f: "js_pow env (Num (1 + i)) (Num n) = Num ?g"
    using assms(1,2) st(3) by (intro js_pow_spec) simp_all
  have g: "js_pow env (Num (1 + r)) (Num n) = Num ?h"
    using assms(2,3) st(4) by (intro js_pow_spec) simp_all
  have nz: "?g \<noteq> 0"
    using spec_pow_pos [OF assms(1), of n] by simp
  show "js_pow env (js_add env (Num 1) (Num i)) (Num n) = Num (spec_pow (1 + i) n)"
    by (simp add: st(1) f del: js_pow.simps)
  show "computeLoss env (Num P) (Num i) (Num r) (Num n) = Num (fullLoss P i r n)"
    using nz st(5-11)
    by (simp add: computeLoss_def fullLoss_def js_sub_def st(1,2) f g del: js_pow.simps)
qed

text \<open>
  C1, as amended. For every non-negative amount \<open>P\<close>, reals \<open>i\<close> and \<open>r\<close> with
  \<open>1 + i > 0\<close> and positive real \<open>n\<close>, where \<open>1 + r \<ge> 0\<close> or \<open>n\<close> is a whole number:
  whenever the evaluation rounds nothing and overflows nowhere (the two powers are the
  real powers and every intermediate result is a finite double),
  \<open>computeLoss(P, i, r, n)\<close> is exactly the closed form
  \<open>P * (1 - 1/(1+i)^n) + (P/(1+i)^n) * ((1+r)^n - 1)\<close>. For instance
  \<open>computeLoss(1, 1, 1, 3) = 1.75\<close>. In general, with positive bases and finite
  intermediate results, it is the closed form evaluated in double arithmetic, step by
  step: each sum, difference, product and quotient rounded, the powers as \<open>Math.pow\<close>
  gives them.
\<close>

theorem computeLoss_closed_form:
  assumes "0 \<le> P" and "0 < 1 + i" and "0 < n" and "0 \<le> 1 + r \<or> is_whole n"
  shows "(exact_loss_steps env P i r n
            \<longrightarrow> computeLoss env (Num P) (Num i) (Num r) (Num n) = Num (fullLoss P i r n))
       \<and> (\<forall>a g q s e b h t d w.
            rnd env (1 + i) = Num a \<and> 0 < a \<and> math_pow env a n = Num g \<and> g \<noteq> 0
          \<and> rnd env (1 / g) = Num q \<and> rnd env (1 - q) = Num s \<and> rnd env (P * s) = Num e
          \<and> rnd env (1 + r) = Num b \<and> 0 < b \<and> math_pow env b n = Num h
          \<and> rnd env (h - 1) = Num t \<and> rnd env (P / g) = Num d \<and> rnd env (d * t) = Num w
          \<longrightarrow> computeLoss env (Num P) (Num i) (Num r) (Num n) = rnd env (e + w))"
proof -
  have exact_case: "computeLoss env (Num P) (Num i) (Num r) (Num n) = Num (fullLoss P i r n)"
    if "exact_loss_steps env P i r n"
    using assms(2-4) that by (rule computeLoss_exact(1))
  have rounded: "computeLoss env (Num P) (Num i) (Num r) (Num n) = rnd env (e + w)"
    if "rnd env (1 + i) = Num a" "0 < a" "math_pow env a n = Num g" "g \<noteq> 0"
      "rnd env (1 / g) = Num q" "rnd env (1 - q) = Num s" "rnd env (P * s) = Num e"
      "rnd env (1 + r) = Num b" "0 < b" "math_pow env b n = Num h"
      "rnd env (h - 1) = Num t" "rnd env (P / g) = Num d" "rnd env (d * t) = Num w"
    for a g q s e b h t d w
  proof -
    have f: "js_pow env (Num a) (Num n) = Num g"
      using assms(3) that(2,3) by simp
    have k: "js_pow env (Num b) (Num n) = Num h"
      using assms(3) that(9,10) by simp
    show ?thesis
      using that(4-7,11-13)
      by (simp add: computeLoss_def js_sub_def that(1,8) f k del: js_pow.simps)
  qed
  show ?thesis using exact_case rounded by blast
qed

theorem computeLoss_closed_form_witness:
  "(0::real) \<le> 1 \<and> (0::real) < 1 + 1 \<and> (0::real) < 3 \<and> ((0::real) \<le> 1 + 1 \<or> is_whole 3)
     \<and> exact_loss_steps exact_env 1 1 1 3
     \<and> computeLoss exact_env (Num 1) (Num 1) (Num 1) (Num 3) = Num (fullLoss 1 1 1 3)
     \<and> fullLoss 1 1 1 3 = 7 / 4
     \<and> rnd exact_env (1 + 1) = Num 2 \<and> (0::real) < 2 \<and> math_pow exact_env 2 3 = Num 8
     \<and> (8::real) \<noteq> 0 \<and> rnd exact_env (1 / 8) = Num (1 / 8)
     \<and> rnd exact_env (1 - 1 / 8) = Num (7 / 8) \<and> rnd exact_env (1 * (7 / 8)) = Num (7 / 8)
     \<and> rnd exact_env (8 - 1) = Num 7 \<and> rnd exact_env (1 / 8) = Num (1 / 8)
     \<and> rnd exact_env (1 / 8 * 7) = Num (7 / 8)
     \<and> computeLoss exact_env (Num 1) (Num 1) (Num 1) (Num 3) = rnd exact_env (7 / 8 + 7 / 8)"
proof -
  have prem: "(0::real) \<le> 1" "(0::real) < 1 + 1" "(0::real) < 3"
    "(0::real) \<le> 1 + 1 \<or> is_whole 3"
    by simp_all
  note th = computeLoss_closed_form [OF prem, of exact_env]
  have steps: "rnd exact_env (1 + 1) = Num 2" "math_pow exact_env 2 3 = Num 8"
    "rnd exact_env (1 / 8) = Num (1 / 8)" "rnd exact_env (1 - 1 / 8) = Num (7 / 8)"
    "rnd exact_env (1 * (7 / 8)) = Num (7 / 8)" "rnd exact_env (8 - 1) = Num 7"
    "rnd exact_env (1 / 8 * 7) = Num (7 / 8)"
    by (simp_all add: rnd_exact_env math_pow_exact_env spec_pow_def)
  have a: "computeLoss exact_env (Num 1) (Num 1) (Num 1) (Num 3) = Num (fullLoss 1 1 1 3)"
    using th [THEN conjunct1] by (simp add: exact_loss_steps_exact_env)
  have b: "computeLoss exact_env (Num 1) (Num 1) (Num 1) (Num 3) = rnd exact_env (7 / 8 + 7 / 8)"
    using th [THEN conjunct2, rule_format, of 2 8 "1 / 8" "7 / 8" "7 / 8" 2 8 7 "1 / 8" "7 / 8"]
      steps
    by simp
  have c: "fullLoss 1 1 1 3 = 7 / 4"
    by (simp add: fullLoss_def spec_pow_def)
  show ?thesis
    using prem a b c steps exact_loss_steps_exact_env [of 1 1 1 3] by simp
qed

text \<open>
  C1 as stated fails where \<open>1 + r < 0\<close> and the horizon is not a whole number: for
  \<open>P = 1\<close>, \<open>i = 0\<close>, \<open>r = -2\<close>, \<open>n = 1/2\<close> the result is NaN (\<open>Math.pow(-1, 0.5)\<close>),
  which is no real number.
\<close>

theorem computeLoss_closed_form_counterexample:
  "(0::real) \<le> 1 \<and> (0::real) < 1 + 0 \<and> (0::real) < 1 / 2
     \<and> computeLoss exact_env (Num 1) (Num 0) (Num (- 2)) (Num (1 / 2)) = NaN
     \<and> computeLoss exact_env (Num 1) (Num 0) (Num (- 2)) (Num (1 / 2))
         \<noteq> Num (fullLoss 1 0 (- 2) (1 / 2))"
  by (simp add: computeLoss_def js_sub_def is_whole_def rnd_exact_env math_pow_exact_env
        spec_pow_def)

section \<open>Zero amount, zero rates\<close>

text \<open>
  C6, as amended. In both versions \<open>computeLoss(0, i, r, n) = 0\<close> whenever the growth
  factor \<open>Math.pow(1 + i, n)\<close> is a finite number other than zero, its reciprocal and
  one minus that are finite, and the power \<open>Math.pow(1 + r, n)\<close> and that minus one are
  finite (no NaN, no overflow to an infinity, no underflow to zero). And
  \<open>computeLoss(P, 0, 0, m) = 0\<close> for every finite double \<open>P\<close> and finite \<open>m\<close>, given
  that \<open>Math.pow(1, m)\<close> is \<open>1\<close>.
\<close>

theorem computeLoss_zero:
  "(exact env 0
      \<and> js_pow env (js_add env (Num 1) (Num i)) (Num n) = Num g \<and> g \<noteq> 0
      \<and> rnd env (1 / g) = Num q \<and> rnd env (1 - q) = Num s
      \<and> js_pow env (js_add env (Num 1) (Num r)) (Num n) = Num h
      \<and> rnd env (h - 1) = Num t
      \<longrightarrow> computeLoss env (Num 0) (Num i) (Num r) (Num n) = Num 0
        \<and> computeLoss_v0 env (Num 0) (Num i) (Num r) (Num n) = Num 0)
   \<and> (exact env 0 \<and> exact env 1 \<and> exact env P \<and> (m \<noteq> 0 \<longrightarrow> math_pow env 1 m = Num 1)
      \<longrightarrow> computeLoss env (Num P) (Num 0) (Num 0) (Num m) = Num 0
        \<and> computeLoss_v0 env (Num P) (Num 0) (Num 0) (Num m) = Num 0)"
proof -
  have one: "computeLoss env (Num 0) (Num i) (Num r) (Num n) = Num 0
           \<and> computeLoss_v0 env (Num 0) (Num i) (Num r) (Num n) = Num 0"
    if "exact env 0"
      and "js_pow env (js_add env (Num 1) (Num i)) (Num n) = Num g" and "g \<noteq> 0"
      and "rnd env (1 / g) = Num q" and "rnd env (1 - q) = Num s"
      and "js_pow env (js_add env (Num 1) (Num r)) (Num n) = Num h"
      and "rnd env (h - 1) = Num t"
  proof -
    have z: "rnd env 0 = Num 0" using that(1) by (simp add: exact_def)
    have "computeLoss env (Num 0) (Num i) (Num r) (Num n) = Num 0"
      unfolding computeLoss_def Let_def that(2,6)
      using that(3,4,5,7) by (simp add: js_sub_def z)
    moreover have "computeLoss_v0 env (Num 0) (Num i) (Num r) (Num n) = Num 0"
      unfolding computeLoss_v0_def Let_def that(2,6)
      using that(3,7) by (simp add: js_sub_def z)
    ultimately show ?thesis by simp
  qed
  have two: "computeLoss env (Num P) (Num 0) (Num 0) (Num m) = Num 0
           \<and> computeLoss_v0 env (Num P) (Num 0) (Num 0) (Num m) = Num 0"
    if "exact env 0" and "exact env 1" and "exact env P"
      and "m \<noteq> 0 \<longrightarrow> math_pow env 1 m = Num 1"
  proof -
    have z: "rnd env 0 = Num 0" "rnd env 1 = Num 1" "rnd env P = Num P"
      using that(1-3) by (simp_all add: exact_def)
    have p: "js_pow env (Num 1) (Num m) = Num 1"
      using that(4) by simp
    show ?thesis
      by (simp add: computeLoss_def computeLoss_v0_def js_sub_def z p del: js_pow.simps)
  qed
  show ?thesis using one two by blast
qed

theorem computeLoss_zero_witness:
  "exact exact_env 0
   \<and> js_pow exact_env (js_add exact_env (Num 1) (Num 1)) (Num 3) = Num 8 \<and> (8::real) \<noteq> 0
   \<and> rnd exact_env (1 / 8) = Num (1 / 8) \<and> rnd exact_env (1 - 1 / 8) = Num (7 / 8)
   \<and> rnd exact_env (8 - 1) = Num 7
   \<and> computeLoss exact_env (Num 0) (Num 1) (Num 1) (Num 3) = Num 0
   \<and> computeLoss_v0 exact_env (Num 0) (Num 1) (Num 1) (Num 3) = Num 0
   \<and> exact exact_env 1 \<and> exact exact_env 10000
   \<and> (10::real) \<noteq> 0 \<and> math_pow exact_env 1 10 = Num 1
   \<and> computeLoss exact_env (Num 10000) (Num 0) (Num 0) (Num 10) = Num 0
   \<and> computeLoss_v0 exact_env (Num 10000) (Num 0) (Num 0) (Num 10) = Num 0"
proof -
  have p: "js_pow exact_env (js_add exact_env (Num 1) (Num 1)) (Num 3) = Num 8"
    by (simp add: rnd_exact_env math_pow_exact_env spec_pow_def)
  have r: "rnd exact_env (1 / 8) = Num (1 / 8)" "rnd exact_env (1 - 1 / 8) = Num (7 / 8)"
    "rnd exact_env (8 - 1) = Num 7"
    by (simp_all add: rnd_exact_env)
  have m: "math_pow exact_env 1 10 = Num 1"
    by (simp add: math_pow_exact_env spec_pow_def)
  show ?thesis
    using computeLoss_zero [of exact_env 1 3 8 "1 / 8" "7 / 8" 1 8 7 10000 10] p r m
    by (simp add: exact_exact_env)
qed

text \<open>
  C6 as stated fails for a zero amount where \<open>1 + r < 0\<close> and the horizon is not a whole
  number: \<open>computeLoss(0, 0, -2, 1/2)\<close> is \<open>0 + 0 * NaN\<close>, that is NaN, in the current
  version, and \<open>0 * NaN\<close> in the first.
\<close>

theorem computeLoss_zero_counterexample:
  "(0::real) < 1 + 0 \<and> (0::real) < 1 / 2
     \<and> computeLoss exact_env (Num 0) (Num 0) (Num (- 2)) (Num (1 / 2)) = NaN
     \<and> computeLoss exact_env (Num 0) (Num 0) (Num (- 2)) (Num (1 / 2)) \<noteq> Num 0
     \<and> computeLoss_v0 exact_env (Num 0) (Num 0) (Num (- 2)) (Num (1 / 2)) = NaN"
  by (simp add: computeLoss_def computeLoss_v0_def js_sub_def is_whole_def rnd_exact_env
        math_pow_exact_env spec_pow_def)

section \<open>Growth of the loss with the horizon\<close>








section \<open>What the rate derivation returns\<close>

lemma parseFiniteNumber_simps:
  "parseFiniteNumber env JUndefined = None"
  "parseFiniteNumber env JNull = None"
  "parseFiniteNumber env (JNumber n) = (case n of Num x \<Rightarrow> Some x | _ \<Rightarrow> None)"
  "parseFiniteNumber env (JString s) =
     (if s = [] then None else case parseFloat env s of Num x \<Rightarrow> Some x | _ \<Rightarrow> None)"
  by (simp_all add: parseFiniteNumber_def)

lemma parseFiniteNumber_unusable:
  "cpi_unusable env v \<longleftrightarrow>
     parseFiniteNumber env v = None \<or> (\<exists>x. parseFiniteNumber env v = Some x \<and> x \<le> 0)"
  by (cases v) (auto simp: parseFiniteNumber_simps split: jsnum.splits)

lemma parseFiniteNumber_holds:
  "holds_number env v x \<longleftrightarrow> parseFiniteNumber env v = Some x"
  by (cases v) (auto simp: parseFiniteNumber_simps split: jsnum.splits)

lemma parseFiniteNumber_absent:
  "absent_or_nonfinite env v \<longleftrightarrow> parseFiniteNumber env v = None"
  by (cases v) (auto simp: parseFiniteNumber_simps split: jsnum.splits)

lemma parseFiniteNumber_and_get_Prim:
  "parseFiniteNumber env (and_get (Prim v) f) = (if v = JNumber (Num 0) then Some 0 else None)"
  by (cases v) (auto simp: parseFiniteNumber_simps split: jsnum.splits)

lemma getInputs_no_country: "getInputs env None = None"
  by (simp add: getInputs_def cpi_of_def parseFiniteNumber_simps)

lemma getInputs_Prim:
  assumes "cpi c = Prim v"
  shows "getInputs env (Some c) = None"
  using assms
  by (simp add: getInputs_def cpi_of_def parseFiniteNumber_and_get_Prim del: and_get.simps)

text \<open>
  What \<open>getInputs\<close> returns for a record, in one equivalence.
\<close>

lemma getInputs_Some_iff:
  "getInputs env (Some c) = Some inp \<longleftrightarrow>
     (\<exists>cp l p. cpi c = Obj cp
        \<and> parseFiniteNumber env (latest cp) = Some l \<and> parseFiniteNumber env (previous cp) = Some p
        \<and> 0 < l \<and> 0 < p
        \<and> inp = \<lparr>inflationRate = js_add env (rnd env (l / p)) (Num (- 1)),
                  interestRate = (case parseFiniteNumber env (and_get (rate c) rate_value) of
                                    Some v \<Rightarrow> rnd env (v / 100) | None \<Rightarrow> Num 0),
                  hasRate = (parseFiniteNumber env (and_get (rate c) rate_value) \<noteq> None)\<rparr>)"
proof (cases "cpi c")
  case (Prim v)
  then show ?thesis by (simp add: getInputs_Prim)
next
  case (Obj cp)
  then show ?thesis
    by (auto simp: getInputs_def cpi_of_def rate_of_def js_sub_def Let_def
             split: option.splits)
qed

lemma getInputs_None_iff:
  "getInputs env (Some c) = None \<longleftrightarrow> cpi_data_unusable env c"
proof (cases "cpi c")
  case (Prim v)
  then show ?thesis by (simp add: getInputs_Prim cpi_data_unusable_def)
next
  case (Obj cp)
  then show ?thesis
    by (auto simp: getInputs_def cpi_of_def cpi_data_unusable_def parseFiniteNumber_unusable
          Let_def split: option.splits)
qed

lemma getInputs_holds:
  assumes "cpi c = Obj cp" and "holds_number env (latest cp) l"
    and "holds_number env (previous cp) p" and "0 < l" and "0 < p"
  shows "\<exists>inp. getInputs env (Some c) = Some inp
           \<and> inflationRate inp = js_add env (rnd env (l / p)) (Num (- 1))"
  using assms by (simp add: getInputs_Some_iff parseFiniteNumber_holds)

lemma getInputs_example:
  assumes "0 < l" and "0 < p"
  shows "getInputs exact_env (Some (example_country (JNumber (Num l)) (JNumber (Num p)) r))
       = Some \<lparr>inflationRate = Num (l / p - 1),
               interestRate = (case parseFiniteNumber exact_env (and_get r rate_value) of
                                 Some v \<Rightarrow> Num (v / 100) | None \<Rightarrow> Num 0),
               hasRate = (parseFiniteNumber exact_env (and_get r rate_value) \<noteq> None)\<rparr>"
  using assms
  by (simp add: getInputs_Some_iff example_country_def parseFiniteNumber_simps rnd_exact_env
        split: option.splits)

lemma getInputs_two_one_fifty:
  "getInputs exact_env
       (Some (example_country (JNumber (Num 2)) (JNumber (Num 1)) (example_rate 50)))
     = Some \<lparr>inflationRate = Num 1, interestRate = Num (1 / 2), hasRate = True\<rparr>"
  using getInputs_example [of 2 1 "example_rate 50"]
  by (simp add: example_rate_def parseFiniteNumber_simps)

text \<open>
  C3. For every country record whose CPI data are absent (or no object), or in which the
  latest or the previous index value is missing, not finite, or not positive,
  \<open>getInputs\<close> returns \<open>null\<close>: no derived rates at all. In particular a previous index
  value of \<open>0\<close> gives \<open>null\<close>.
\<close>

theorem getInputs_unavailable:
  assumes "case cpi c of
             Prim v \<Rightarrow> True
           | Obj cp \<Rightarrow> cpi_unusable env (latest cp) \<or> cpi_unusable env (previous cp)"
  shows "getInputs env (Some c) = None"
proof (cases "getInputs env (Some c)")
  case None
  then show ?thesis .
next
  case (Some inp)
  then obtain cp l p where cp: "cpi c = Obj cp"
    and l: "parseFiniteNumber env (latest cp) = Some l" "0 < l"
    and p: "parseFiniteNumber env (previous cp) = Some p" "0 < p"
    unfolding getInputs_Some_iff by blast
  from assms cp have "cpi_unusable env (latest cp) \<or> cpi_unusable env (previous cp)"
    by simp
  then show ?thesis
    using l p by (auto simp: parseFiniteNumber_unusable)
qed

theorem getInputs_unavailable_witness:
  "(case cpi (example_country (JNumber (Num 2)) (JNumber (Num 0)) (example_rate 50)) of
      Prim v \<Rightarrow> True
    | Obj cp \<Rightarrow> cpi_unusable exact_env (latest cp) \<or> cpi_unusable exact_env (previous cp))
   \<and> getInputs exact_env
        (Some (example_country (JNumber (Num 2)) (JNumber (Num 0)) (example_rate 50))) = None"
  using getInputs_unavailable
    [where c = "example_country (JNumber (Num 2)) (JNumber (Num 0)) (example_rate 50)"
       and env = exact_env]
  by (simp add: example_country_def)

text \<open>
  Two roundings that are accurate keep \<open>102.1 / 100.0 - 1\<close> close to \<open>0.021\<close>.
\<close>

lemma accurate_fallback:
  assumes "accurate env"
  shows "\<exists>y0 y1 y2. rnd env (1021 / 10) = Num y0 \<and> 0 < y0
           \<and> rnd env (y0 / 100) = Num y1 \<and> rnd env (y1 - 1) = Num y2
           \<and> \<bar>y2 - 21 / 1000\<bar> \<le> 1 / 1000000000"
proof -
  have acc: "\<exists>y. rnd env x = Num y \<and> \<bar>y - x\<bar> \<le> \<bar>x\<bar> / 1000000000000000"
    if "1 / 1000 \<le> \<bar>x\<bar>" "\<bar>x\<bar> \<le> 1000" for x
    using assms that unfolding accurate_def by blast
  have "1 / 1000 \<le> \<bar>1021 / 10 :: real\<bar>" "\<bar>1021 / 10 :: real\<bar> \<le> 1000"
    by simp_all
  from acc [OF this] obtain y0 where y0: "rnd env (1021 / 10) = Num y0"
    and e0: "\<bar>y0 - 1021 / 10\<bar> \<le> \<bar>1021 / 10 :: real\<bar> / 1000000000000000"
    by blast
  have b0: "102 \<le> y0" "y0 \<le> 103"
    using e0 by linarith+
  have r1: "1 / 1000 \<le> \<bar>y0 / 100\<bar>" "\<bar>y0 / 100\<bar> \<le> 1000"
    using b0 by linarith+
  from acc [OF r1] obtain y1 where y1: "rnd env (y0 / 100) = Num y1"
    and e1: "\<bar>y1 - y0 / 100\<bar> \<le> \<bar>y0 / 100\<bar> / 1000000000000000"
    by blast
  have b1: "\<bar>(y1 - 1) - 21 / 1000\<bar> \<le> 1 / 100000000000"
    using e0 e1 b0 by linarith
  have r2: "1 / 1000 \<le> \<bar>y1 - 1\<bar>" "\<bar>y1 - 1\<bar> \<le> 1000"
    using b1 by linarith+
  from acc [OF r2] obtain y2 where y2: "rnd env (y1 - 1) = Num y2"
    and e2: "\<bar>y2 - (y1 - 1)\<bar> \<le> \<bar>y1 - 1\<bar> / 1000000000000000"
    by blast
  have "\<bar>y1 - 1\<bar> \<le> 1"
    using b1 by linarith
  then have "\<bar>y1 - 1\<bar> / 1000000000000000 \<le> 1 / 1000000000000000"
    by (rule divide_right_mono) simp
  with e2 have "\<bar>y2 - (y1 - 1)\<bar> \<le> 1 / 1000000000000000"
    by (rule order_trans)
  with b1 have "\<bar>y2 - 21 / 1000\<bar> \<le> 1 / 1000000000"
    by linarith
  moreover have "0 < y0" using b0 by linarith
  ultimately show ?thesis using y0 y1 y2 by blast
qed

text \<open>
  C4. For every country record whose CPI pair holds two finite positive numbers \<open>l\<close>
  and \<open>p\<close>, the derivation succeeds and the derived inflation rate is \<open>l / p - 1\<close> as
  double arithmetic computes it: the rounded difference of the rounded quotient and one
  (\<open>Infinity\<close> if the quotient overflows), and exactly \<open>l / p - 1\<close> when neither step
  rounds. For the fallback record, \<open>102.1\<close> and \<open>100.0\<close>, it is within \<open>10^-9\<close> of
  \<open>0.021\<close> under any rounding accurate to fifteen digits.
\<close>

theorem getInputs_inflationRate:
  "(cpi c = Obj cp \<and> holds_number env (latest cp) l \<and> holds_number env (previous cp) p
      \<and> 0 < l \<and> 0 < p
      \<longrightarrow> (\<exists>inp. getInputs env (Some c) = Some inp
            \<and> (\<forall>q. rnd env (l / p) = Num q \<longrightarrow> inflationRate inp = rnd env (q - 1))
            \<and> (rnd env (l / p) = PosInf \<longrightarrow> inflationRate inp = PosInf)
            \<and> (exact env (l / p) \<and> exact env (l / p - 1)
                  \<longrightarrow> inflationRate inp = Num (l / p - 1))))
   \<and> (accurate env
      \<longrightarrow> (\<exists>inp v. getInputs env (Some (fallbackUS env)) = Some inp
            \<and> inflationRate inp = Num v \<and> \<bar>v - 21 / 1000\<bar> \<le> 1 / 1000000000))"
proof -
  have general: "\<exists>inp. getInputs env (Some c) = Some inp
            \<and> (\<forall>q. rnd env (l / p) = Num q \<longrightarrow> inflationRate inp = rnd env (q - 1))
            \<and> (rnd env (l / p) = PosInf \<longrightarrow> inflationRate inp = PosInf)
            \<and> (exact env (l / p) \<and> exact env (l / p - 1)
                  \<longrightarrow> inflationRate inp = Num (l / p - 1))"
    if h: "cpi c = Obj cp" "holds_number env (latest cp) l" "holds_number env (previous cp) p"
      "0 < l" "0 < p"
  proof -
    obtain inp where g: "getInputs env (Some c) = Some inp"
      and i: "inflationRate inp = js_add env (rnd env (l / p)) (Num (- 1))"
      using getInputs_holds [OF h] by blast
    have "inflationRate inp = rnd env (q - 1)" if "rnd env (l / p) = Num q" for q
      using i that by simp
    moreover have "inflationRate inp = PosInf" if "rnd env (l / p) = PosInf"
      using i that by simp
    moreover have "inflationRate inp = Num (l / p - 1)"
      if "exact env (l / p)" "exact env (l / p - 1)"
      using i that by (simp add: exact_def)
    ultimately show ?thesis using g by blast
  qed
  have particular: "\<exists>inp v. getInputs env (Some (fallbackUS env)) = Some inp
            \<and> inflationRate inp = Num v \<and> \<bar>v - 21 / 1000\<bar> \<le> 1 / 1000000000"
    if acc: "accurate env"
  proof -
    obtain y0 y1 y2 where y: "rnd env (1021 / 10) = Num y0" "0 < y0"
      "rnd env (y0 / 100) = Num y1" "rnd env (y1 - 1) = Num y2"
      "\<bar>y2 - 21 / 1000\<bar> \<le> 1 / 1000000000"
      using accurate_fallback [OF acc] by blast
    let ?cp = "\<lparr>latest = JNumber (Num y0), latestDate = JString ''2024-M12'',
                 previous = JNumber (Num 100), previousDate = JString ''2023-M12''\<rparr>"
    have c: "cpi (fallbackUS env) = Obj ?cp"
      by (simp add: fallbackUS_def y(1))
    have "holds_number env (latest ?cp) y0" "holds_number env (previous ?cp) 100"
      by simp_all
    from getInputs_holds [OF c this y(2)]
    obtain inp where "getInputs env (Some (fallbackUS env)) = Some inp"
      and "inflationRate inp = js_add env (rnd env (y0 / 100)) (Num (- 1))"
      by auto
    then show ?thesis using y(3,4,5) by simp
  qed
  show ?thesis using general particular by blast
qed

theorem getInputs_inflationRate_witness:
  "cpi (example_country (JNumber (Num 3)) (JNumber (Num 2)) (example_rate 50))
     = Obj \<lparr>latest = JNumber (Num 3), latestDate = JString ''2024-M12'',
            previous = JNumber (Num 2), previousDate = JString ''2023-M12''\<rparr>
   \<and> holds_number exact_env (JNumber (Num 3)) 3 \<and> holds_number exact_env (JNumber (Num 2)) 2
   \<and> (0::real) < 3 \<and> (0::real) < 2
   \<and> exact exact_env (3 / 2) \<and> exact exact_env (3 / 2 - 1)
   \<and> (\<exists>inp. getInputs exact_env
               (Some (example_country (JNumber (Num 3)) (JNumber (Num 2)) (example_rate 50)))
             = Some inp
          \<and> inflationRate inp = Num (1 / 2))
   \<and> accurate exact_env
   \<and> (\<exists>inp v. getInputs exact_env (Some (fallbackUS exact_env)) = Some inp
          \<and> inflationRate inp = Num v \<and> \<bar>v - 21 / 1000\<bar> \<le> 1 / 1000000000)"
proof -
  let ?cp = "\<lparr>latest = JNumber (Num 3), latestDate = JString ''2024-M12'',
               previous = JNumber (Num 2), previousDate = JString ''2023-M12''\<rparr>"
  let ?c = "example_country (JNumber (Num 3)) (JNumber (Num 2)) (example_rate 50)"
  have c: "cpi ?c = Obj ?cp"
    by (simp add: example_country_def)
  have h: "holds_number exact_env (latest ?cp) 3" "holds_number exact_env (previous ?cp) 2"
    by simp_all
  have e: "exact exact_env (3 / 2)" "exact exact_env (3 / 2 - 1)"
    by (rule exact_exact_env)+
  from getInputs_inflationRate [of ?c ?cp exact_env 3 2] c h e accurate_exact_env
  have "(\<exists>inp. getInputs exact_env (Some ?c) = Some inp
            \<and> inflationRate inp = Num (3 / 2 - 1))
      \<and> (\<exists>inp v. getInputs exact_env (Some (fallbackUS exact_env)) = Some inp
            \<and> inflationRate inp = Num v \<and> \<bar>v - 21 / 1000\<bar> \<le> 1 / 1000000000)"
    by auto
  then show ?thesis
    using c e accurate_exact_env by simp
qed

text \<open>
  C5. For every country record whose derivation succeeds: if the rate object's value
  holds a finite number \<open>x\<close> (zero included), the derived rates have \<open>hasRate = true\<close>
  and the interest rate is the double quotient \<open>x / 100\<close>; if that value is absent or not
  finite, or the record has no rate at all, they have \<open>hasRate = false\<close> and an interest
  rate of \<open>0\<close>. (A rate field that is itself the number \<open>0\<close> is read as a present rate
  of zero.)
\<close>

theorem getInputs_interestRate:
  assumes "getInputs env (Some c) = Some inp"
  shows "(\<forall>rr x. rate c = Obj rr \<and> holds_number env (rate_value rr) x
            \<longrightarrow> hasRate inp \<and> interestRate inp = rnd env (x / 100))
       \<and> (\<forall>rr. rate c = Obj rr \<and> absent_or_nonfinite env (rate_value rr)
            \<longrightarrow> \<not> hasRate inp \<and> interestRate inp = Num 0)
       \<and> (rate c = Prim JUndefined \<or> rate c = Prim JNull
            \<longrightarrow> \<not> hasRate inp \<and> interestRate inp = Num 0)
       \<and> (rate c = Prim (JNumber (Num 0))
            \<longrightarrow> hasRate inp \<and> interestRate inp = rnd env 0)"
proof -
  let ?v = "parseFiniteNumber env (and_get (rate c) rate_value)"
  from assms have r: "interestRate inp = (case ?v of Some v \<Rightarrow> rnd env (v / 100) | None \<Rightarrow> Num 0)"
    and h: "hasRate inp = (?v \<noteq> None)"
    by (auto simp: getInputs_Some_iff)
  have "hasRate inp \<and> interestRate inp = rnd env (x / 100)"
    if "rate c = Obj rr" "holds_number env (rate_value rr) x" for rr x
    using that r h by (simp add: parseFiniteNumber_holds)
  moreover have "\<not> hasRate inp \<and> interestRate inp = Num 0"
    if "rate c = Obj rr" "absent_or_nonfinite env (rate_value rr)" for rr
    using that r h by (simp add: parseFiniteNumber_absent)
  moreover have "\<not> hasRate inp \<and> interestRate inp = Num 0"
    if "rate c = Prim JUndefined \<or> rate c = Prim JNull"
    using that r h by (auto simp: parseFiniteNumber_simps)
  moreover have "hasRate inp \<and> interestRate inp = rnd env 0"
    if "rate c = Prim (JNumber (Num 0))"
    using that r h by (simp add: parseFiniteNumber_simps)
  ultimately show ?thesis by blast
qed

theorem getInputs_interestRate_witness:
  "(\<exists>inp. getInputs exact_env
             (Some (example_country (JNumber (Num 2)) (JNumber (Num 1)) (example_rate 50)))
           = Some inp
       \<and> rate (example_country (JNumber (Num 2)) (JNumber (Num 1)) (example_rate 50))
           = Obj \<lparr>rate_value = JNumber (Num 50), rate_date = JString ''2024-M12''\<rparr>
       \<and> holds_number exact_env (JNumber (Num 50)) 50
       \<and> hasRate inp \<and> interestRate inp = Num (1 / 2))
   \<and> (\<exists>inp. getInputs exact_env
             (Some (example_country (JNumber (Num 2)) (JNumber (Num 1)) (Prim JUndefined)))
           = Some inp
       \<and> rate (example_country (JNumber (Num 2)) (JNumber (Num 1)) (Prim JUndefined))
           = Prim JUndefined
       \<and> \<not> hasRate inp \<and> interestRate inp = Num 0)"
proof -
  let ?c1 = "example_country (JNumber (Num 2)) (JNumber (Num 1)) (example_rate 50)"
  let ?c2 = "example_country (JNumber (Num 2)) (JNumber (Num 1)) (Prim JUndefined)"
  let ?rr = "\<lparr>rate_value = JNumber (Num 50), rate_date = JString ''2024-M12''\<rparr>"
  obtain inp1 where g1: "getInputs exact_env (Some ?c1) = Some inp1"
    using getInputs_example [of 2 1 "example_rate 50"] by simp
  obtain inp2 where g2: "getInputs exact_env (Some ?c2) = Some inp2"
    using getInputs_example [of 2 1 "Prim JUndefined"] by simp
  have r1: "rate ?c1 = Obj ?rr"
    by (simp add: example_country_def example_rate_def)
  have h1: "holds_number exact_env (rate_value ?rr) 50"
    by simp
  have r2: "rate ?c2 = Prim JUndefined"
    by (simp add: example_country_def)
  have "hasRate inp1 \<and> interestRate inp1 = rnd exact_env (50 / 100)"
    using getInputs_interestRate [OF g1] r1 h1 by blast
  then have a: "hasRate inp1 \<and> interestRate inp1 = Num (1 / 2)"
    by (simp add: rnd_exact_env)
  have b: "\<not> hasRate inp2 \<and> interestRate inp2 = Num 0"
    using getInputs_interestRate [OF g2] r2 by blast
  show ?thesis
    using a b g1 g2 r1 r2 by auto
qed

section \<open>Bounds of the derived inflation rate\<close>







section \<open>The one-year result\<close>

lemma hasAmount_iff: "(\<not> js_isNaN amount \<and> js_ge amount (Num 0)) \<longleftrightarrow> amount_accepted amount"
  by (cases amount) simp_all

text \<open>
  What \<open>runCalculation\<close> writes when it shows results, and when it shows dashes.
\<close>

lemma runCalculation_shown:
  assumes "amount_accepted amount" and "getInputs env (Some c) = Some inp"
  shows "runCalculation env amount (Some c) d =
           d\<lparr>emptyState := False, interestExplanationHidden := \<not> hasRate inp,
             loss1y := Money (js_add env (js_mul env amount (inflationRate inp))
                                         (js_mul env amount (interestRate inp)))
                        (case currencySymbol c of None \<Rightarrow> [] | Some s \<Rightarrow> s),
             loss5y := Money (computeLoss env amount (inflationRate inp) (interestRate inp) (Num 5))
                        (case currencySymbol c of None \<Rightarrow> [] | Some s \<Rightarrow> s),
             loss10y := Money (computeLoss env amount (inflationRate inp) (interestRate inp) (Num 10))
                        (case currencySymbol c of None \<Rightarrow> [] | Some s \<Rightarrow> s)\<rparr>"
  using assms
  by (simp add: runCalculation_def hasAmount_iff setEmptyState_def toggleInterestExplanation_def
        animateResultNumbers_def)

lemma runCalculation_dashes:
  assumes "\<not> amount_accepted amount \<or> getInputs env c = None"
  shows "loss1y (runCalculation env amount c d) = Dash
       \<and> loss5y (runCalculation env amount c d) = Dash
       \<and> loss10y (runCalculation env amount c d) = Dash"
  using assms
  by (cases c)
     (auto simp: runCalculation_def hasAmount_iff setEmptyState_def toggleInterestExplanation_def
        showDashes_def Let_def)

lemma fullLoss_one_year:
  assumes "0 < 1 + i"
  shows "fullLoss P i r 1 = (P * i + P * r) / (1 + i)"
proof -
  have nz: "1 + i \<noteq> 0" using assms by simp
  have b: "spec_pow (1 + r) 1 = 1 + r"
    by (simp add: spec_pow_def)
  have a: "spec_pow (1 + i) 1 = 1 + i"
    using assms by (simp add: spec_pow_def)
  have "1 - 1 / (1 + i) = i / (1 + i)"
    using nz by (simp add: diff_divide_eq_iff)
  then have "P * (1 - 1 / (1 + i)) + P / (1 + i) * (1 + r - 1) = (P * i + P * r) / (1 + i)"
    by (simp add: add_divide_distrib)
  then show ?thesis
    by (simp add: fullLoss_def a b)
qed

lemma additive_agrees_iff:
  fixes P i r :: real
  assumes "0 < 1 + i"
  shows "(P * i + P * r) / (1 + i) = P * i + P * r \<longleftrightarrow> i = 0 \<or> P * i + P * r = 0"
proof -
  have "(P * i + P * r) / (1 + i) = P * i + P * r \<longleftrightarrow> P * i + P * r = (P * i + P * r) * (1 + i)"
    using assms by (simp add: divide_eq_eq)
  also have "\<dots> \<longleftrightarrow> (P * i + P * r) * i = 0"
    by (simp add: algebra_simps)
  also have "\<dots> \<longleftrightarrow> i = 0 \<or> P * i + P * r = 0"
    by auto
  finally show ?thesis .
qed

lemma is_whole_1: "is_whole 1"
  by (simp add: is_whole_def)

text \<open>
  C2, as amended. For every finite amount \<open>P \<ge> 0\<close> and finite rates \<open>i\<close>, \<open>r\<close> produced
  by the rate derivation with \<open>1 + i > 0\<close>, where neither evaluation rounds or overflows:
  the one-year result that \<open>runCalculation\<close> shows is the additive value \<open>P*i + P*r\<close>,
  whereas \<open>computeLoss(P, i, r, 1) = (P*i + P*r) / (1 + i)\<close>; the two are equal exactly
  when \<open>i = 0\<close> or \<open>P*i + P*r = 0\<close>.
\<close>

theorem one_year_value_vs_computeLoss:
  assumes "0 \<le> P" and "getInputs env (Some c) = Some inp"
    and "inflationRate inp = Num i" and "interestRate inp = Num r" and "0 < 1 + i"
    and "exact env (P * i)" and "exact env (P * r)" and "exact env (P * i + P * r)"
    and "exact_loss_steps env P i r 1"
  shows "loss1y (runCalculation env (Num P) (Some c) d)
           = Money (Num (P * i + P * r)) (case currencySymbol c of None \<Rightarrow> [] | Some s \<Rightarrow> s)
       \<and> computeLoss env (Num P) (Num i) (Num r) (Num 1) = Num ((P * i + P * r) / (1 + i))
       \<and> ((P * i + P * r) / (1 + i) = P * i + P * r \<longleftrightarrow> i = 0 \<or> P * i + P * r = 0)"
proof -
  have acc: "amount_accepted (Num P)" using assms(1) by simp
  have x: "rnd env (P * i) = Num (P * i)" "rnd env (P * r) = Num (P * r)"
    "rnd env (P * i + P * r) = Num (P * i + P * r)"
    using assms(6-8) by (simp_all add: exact_def)
  have one: "loss1y (runCalculation env (Num P) (Some c) d)
           = Money (Num (P * i + P * r)) (case currencySymbol c of None \<Rightarrow> [] | Some s \<Rightarrow> s)"
    by (simp add: runCalculation_shown [OF acc assms(2)] assms(3,4) x)
  have "computeLoss env (Num P) (Num i) (Num r) (Num 1) = Num (fullLoss P i r 1)"
    using assms(5) _ _ assms(9) by (rule computeLoss_exact(1)) (simp_all add: is_whole_1)
  then have two: "computeLoss env (Num P) (Num i) (Num r) (Num 1) = Num ((P * i + P * r) / (1 + i))"
    by (simp add: fullLoss_one_year [OF assms(5)])
  show ?thesis
    using one two additive_agrees_iff [OF assms(5)] by blast
qed

theorem one_year_value_vs_computeLoss_witness:
  "(0::real) \<le> 1000
   \<and> getInputs exact_env
        (Some (example_country (JNumber (Num 2)) (JNumber (Num 1)) (example_rate 50)))
       = Some \<lparr>inflationRate = Num 1, interestRate = Num (1 / 2), hasRate = True\<rparr>
   \<and> (0::real) < 1 + 1
   \<and> exact exact_env (1000 * 1) \<and> exact exact_env (1000 * (1 / 2))
   \<and> exact exact_env (1000 * 1 + 1000 * (1 / 2))
   \<and> exact_loss_steps exact_env 1000 1 (1 / 2) 1
   \<and> loss1y (runCalculation exact_env (Num 1000)
        (Some (example_country (JNumber (Num 2)) (JNumber (Num 1)) (example_rate 50)))
        empty_page)
       = Money (Num (1000 * 1 + 1000 * (1 / 2))) ''$''
   \<and> computeLoss exact_env (Num 1000) (Num 1) (Num (1 / 2)) (Num 1)
       = Num ((1000 * 1 + 1000 * (1 / 2)) / (1 + 1))"
proof -
  let ?inp = "\<lparr>inflationRate = Num 1, interestRate = Num (1 / 2), hasRate = True\<rparr>"
  let ?c = "example_country (JNumber (Num 2)) (JNumber (Num 1)) (example_rate 50)"
  have nonneg: "(0::real) \<le> 1000" by simp
  have i: "inflationRate ?inp = Num 1" and r: "interestRate ?inp = Num (1 / 2)"
    by simp_all
  have pos: "(0::real) < 1 + 1" by simp
  have e: "exact exact_env (1000 * 1)" "exact exact_env (1000 * (1 / 2))"
    "exact exact_env (1000 * 1 + 1000 * (1 / 2))"
    by (rule exact_exact_env)+
  have s: "exact_loss_steps exact_env 1000 1 (1 / 2) 1"
    by (rule exact_loss_steps_exact_env)
  have sym: "currencySymbol ?c = Some ''$''"
    by (simp add: example_country_def)
  from one_year_value_vs_computeLoss
    [OF nonneg getInputs_two_one_fifty i r pos e s, of empty_page]
  have "loss1y (runCalculation exact_env (Num 1000) (Some ?c) empty_page)
          = Money (Num (1000 * 1 + 1000 * (1 / 2))) ''$''
      \<and> computeLoss exact_env (Num 1000) (Num 1) (Num (1 / 2)) (Num 1)
          = Num ((1000 * 1 + 1000 * (1 / 2)) / (1 + 1))"
    unfolding sym by simp
  then show ?thesis
    using getInputs_two_one_fifty e s by simp
qed

text \<open>
  C2 as stated fails on a record with CPI values \<open>2\<close> and \<open>1\<close> and a rate of \<open>50\<close>:
  with \<open>P = 1000\<close>, \<open>i = 1\<close> and \<open>r = 0.5\<close> the one-year result shown is \<open>1500\<close>,
  and \<open>computeLoss(P, i, r, 1)\<close> is \<open>750\<close>.
\<close>

theorem one_year_value_counterexample:
  "getInputs exact_env
       (Some (example_country (JNumber (Num 2)) (JNumber (Num 1)) (example_rate 50)))
     = Some \<lparr>inflationRate = Num 1, interestRate = Num (1 / 2), hasRate = True\<rparr>
   \<and> loss1y (runCalculation exact_env (Num 1000)
        (Some (example_country (JNumber (Num 2)) (JNumber (Num 1)) (example_rate 50)))
        empty_page)
       = Money (Num 1500) ''$''
   \<and> computeLoss exact_env (Num 1000) (Num 1) (Num (1 / 2)) (Num 1) = Num 750
   \<and> (750 :: real) \<noteq> 1500"
proof -
  have "loss1y (runCalculation exact_env (Num 1000)
        (Some (example_country (JNumber (Num 2)) (JNumber (Num 1)) (example_rate 50)))
        empty_page)
       = Money (Num 1500) ''$''"
    by (subst runCalculation_shown [OF _ getInputs_two_one_fifty])
       (simp_all add: example_country_def rnd_exact_env)
  moreover have "computeLoss exact_env (Num 1000) (Num 1) (Num (1 / 2)) (Num 1) = Num 750"
    by (simp add: computeLoss_def js_sub_def rnd_exact_env math_pow_exact_env spec_pow_def)
  ultimately show ?thesis
    by (simp add: getInputs_two_one_fifty)
qed

section \<open>When the placeholder is shown\<close>

text \<open>
  C8, as amended. In the current calculator the result is treated as unavailable, every
  one of the three result elements showing the placeholder, exactly when the amount is NaN
  or negative, no country is selected, or the record's CPI data cannot be used (absent,
  or an index value missing, not finite or not positive). In every other case the three
  computed values go to \<open>formatMoney\<close> as they are: no computed value is tested for
  being finite.
\<close>

theorem runCalculation_unavailable:
  "(let shown = runCalculation env amount c d;
        unavailable = (\<not> amount_accepted amount
                        \<or> (case c of None \<Rightarrow> True | Some c' \<Rightarrow> cpi_data_unusable env c'))
    in (unavailable \<longrightarrow> loss1y shown = Dash \<and> loss5y shown = Dash \<and> loss10y shown = Dash)
     \<and> (\<not> unavailable \<longrightarrow>
          (\<exists>inp s. getInputs env c = Some inp
             \<and> loss1y shown = Money (js_add env (js_mul env amount (inflationRate inp))
                                                (js_mul env amount (interestRate inp))) s
             \<and> loss5y shown
                 = Money (computeLoss env amount (inflationRate inp) (interestRate inp) (Num 5)) s
             \<and> loss10y shown
                 = Money (computeLoss env amount (inflationRate inp) (interestRate inp) (Num 10)) s)))"
proof -
  let ?u = "\<not> amount_accepted amount
              \<or> (case c of None \<Rightarrow> True | Some c' \<Rightarrow> cpi_data_unusable env c')"
  have none: "getInputs env c = None \<longleftrightarrow> (case c of None \<Rightarrow> True | Some c' \<Rightarrow> cpi_data_unusable env c')"
    by (cases c) (simp_all add: getInputs_no_country getInputs_None_iff)
  have a: "loss1y (runCalculation env amount c d) = Dash
         \<and> loss5y (runCalculation env amount c d) = Dash
         \<and> loss10y (runCalculation env amount c d) = Dash" if ?u
  proof -
    from that have "\<not> amount_accepted amount \<or> getInputs env c = None"
      unfolding none by simp
    then show ?thesis by (rule runCalculation_dashes)
  qed
  have b: "\<exists>inp s. getInputs env c = Some inp
             \<and> loss1y (runCalculation env amount c d)
                 = Money (js_add env (js_mul env amount (inflationRate inp))
                                     (js_mul env amount (interestRate inp))) s
             \<and> loss5y (runCalculation env amount c d)
                 = Money (computeLoss env amount (inflationRate inp) (interestRate inp) (Num 5)) s
             \<and> loss10y (runCalculation env amount c d)
                 = Money (computeLoss env amount (inflationRate inp) (interestRate inp) (Num 10)) s"
    if "\<not> ?u"
  proof -
    from that have acc: "amount_accepted amount" and "getInputs env c \<noteq> None"
      unfolding none by simp_all
    then obtain inp where inp: "getInputs env c = Some inp" by blast
    then obtain c' where c': "c = Some c'"
      by (cases c) (simp_all add: getInputs_no_country)
    show ?thesis
      using inp unfolding c' by (simp add: runCalculation_shown [OF acc inp [unfolded c']])
  qed
  show ?thesis
    unfolding Let_def using a b by blast
qed

theorem runCalculation_unavailable_witness:
  "(let c = Some (example_country (JNumber (Num 2)) (JNumber (Num 0)) (example_rate 50));
        shown = runCalculation exact_env (Num 1000) c empty_page
    in cpi_data_unusable exact_env (example_country (JNumber (Num 2)) (JNumber (Num 0)) (example_rate 50))
       \<and> loss1y shown = Dash \<and> loss5y shown = Dash \<and> loss10y shown = Dash)
   \<and> (let c = Some (example_country (JNumber (Num 2)) (JNumber (Num 1)) (example_rate 50));
           shown = runCalculation exact_env (Num 1000) c empty_page
       in amount_accepted (Num 1000)
          \<and> \<not> cpi_data_unusable exact_env
                (example_country (JNumber (Num 2)) (JNumber (Num 1)) (example_rate 50))
          \<and> (\<exists>v1 v5 v10 s. loss1y shown = Money v1 s \<and> loss5y shown = Money v5 s
                \<and> loss10y shown = Money v10 s))"
proof -
  let ?bad = "example_country (JNumber (Num 2)) (JNumber (Num 0)) (example_rate 50)"
  let ?good = "example_country (JNumber (Num 2)) (JNumber (Num 1)) (example_rate 50)"
  have u: "cpi_data_unusable exact_env ?bad"
    by (simp add: cpi_data_unusable_def example_country_def)
  have g: "\<not> cpi_data_unusable exact_env ?good"
    by (simp add: cpi_data_unusable_def example_country_def)
  have acc: "amount_accepted (Num 1000)" by simp
  show ?thesis
    using runCalculation_unavailable [of exact_env "Num 1000" "Some ?bad" empty_page]
      runCalculation_unavailable [of exact_env "Num 1000" "Some ?good" empty_page]
      u g acc
    unfolding Let_def by (simp, blast)
qed

text \<open>
  C8 as stated fails in both versions. In the first version a record with
  \<open>inflationAnnual = -100\<close> has \<open>1 + i = 0\<close>, and the one-year value handed to
  \<open>formatMoney\<close> is \<open>Infinity\<close>. In the current version an amount of \<open>Infinity\<close>
  passes the test of the amount, and the one-year value is \<open>Infinity\<close>.
\<close>

theorem runCalculation_v0_counterexample:
  "js_add exact_env (Num 1)
       (js_div exact_env (js_ToNumber exact_env (JNumber (Num (- 100)))) (Num 100)) = Num 0
   \<and> loss1y (runCalculation_v0 exact_env (Num 100)
        (Some \<lparr>id_v0 = ''US'', name_v0 = JString ''United States'', currencyCode_v0 = ''USD'',
                currencySymbol_v0 = Some ''$'', inflationAnnual = JNumber (Num (- 100)),
                savingsRateAnnual = JNumber (Num 50)\<rparr>)
        empty_page)
     = Money PosInf ''$''
   \<and> loss1y (runCalculation exact_env PosInf
        (Some (example_country (JNumber (Num 2)) (JNumber (Num 1)) (example_rate 50)))
        empty_page)
     = Money PosInf ''$''
   \<and> \<not> js_isFinite PosInf"
proof -
  have "loss1y (runCalculation exact_env PosInf
        (Some (example_country (JNumber (Num 2)) (JNumber (Num 1)) (example_rate 50)))
        empty_page)
     = Money PosInf ''$''"
    by (subst runCalculation_shown [OF _ getInputs_two_one_fifty])
       (simp_all add: example_country_def inf_of_sign_def)
  then show ?thesis
    by (simp add: runCalculation_v0_def computeLoss_v0_def setEmptyState_def js_sub_def
          animateResultNumbers_def inf_of_sign_def Let_def power_divide rnd_exact_env
          math_pow_exact_env spec_pow_def)
qed

section \<open>The explanation popup without an interest rate\<close>

lemma escapeHtml_note:
  "escapeHtml env (JString rateUnavailableNote) =
     ''Short-term interest rate is unavailable for this country in the current IMF dataset. This calculator uses inflation-only mode (interestRate = 0).''"
  by (simp add: escapeHtml_def rateUnavailableNote_def replace_all_def)

lemma interestSection_no_rate:
  assumes "parseFiniteNumber env (and_get (rate c) rate_value) = None"
  shows \<open>interestSection env c inp =
           ''<div class="popup-section"><h4>Interest input from IMF short-term rate</h4><p>Short-term interest rate is unavailable for this country in the current IMF dataset. This calculator uses inflation-only mode (interestRate = 0).</p></div>''\<close>
  using assms by (simp add: interestSection_def escapeHtml_note del: and_get.simps)

lemma no_rate_parse:
  assumes "getInputs env (Some c) = Some inp" and "\<not> hasRate inp"
  shows "parseFiniteNumber env (and_get (rate c) rate_value) = None"
  using assms by (auto simp: getInputs_Some_iff)

lemma getInputs_cpi_truthy:
  assumes "getInputs env (Some c) = Some inp"
  shows "\<not> js_falsy (cpi c)"
  using assms by (auto simp: getInputs_Some_iff)

lemma formulaSection_text:
  \<open>formulaSection env =
     ''<div class="popup-section"><h4>Loss formulas used on this page</h4><p><code>1-year loss = P * i + P * r</code></p><p><code>loss = P * (1 - 1/(1+i)^n) + (P/(1+i)^n) * ((1+r)^n - 1)</code></p><p>P = amount, i = inflationRate, r = interestRate, n = years</p><p>Total loss = purchasing power erosion from inflation + missed growth from not earning interest.</p></div><p class="popup-source">Based on <a href="https://data.imf.org" target="_blank" rel="noopener noreferrer">IMF Data</a></p>''\<close>
  by (simp add: formulaSection_def escapeHtml_def replace_all_def)

lemma popup_no_country:
  \<open>buildHowCalculatedPopup env None inputs =
     ''<h3 id="popup-title">How these numbers are calculated</h3><p>Select a country to see concrete inputs and formulas.</p>''\<close>
  by (simp add: buildHowCalculatedPopup_def popupPlaceholder_def)

lemma popup_no_inputs:
  \<open>buildHowCalculatedPopup env country None =
     ''<h3 id="popup-title">How these numbers are calculated</h3><p>Select a country to see concrete inputs and formulas.</p>''\<close>
  by (simp add: buildHowCalculatedPopup_def popupPlaceholder_def split: option.splits)

text \<open>
  C9. For every country record whose derived rates have \<open>hasRate = false\<close>, the interest
  section of the popup consists of its heading and one paragraph with the plain-language
  note that the rate is unavailable and \<open>interestRate = 0\<close> is used: no rate value, no
  formula and no substitution. Without a country or without inputs the popup is the
  generic placeholder message, and so is what \<open>openPopup\<close> shows when no country is
  selected or the selected record gives no derived rates.
\<close>

theorem popup_rate_unavailable:
  \<open>(getInputs env (Some c) = Some inp \<and> \<not> hasRate inp \<longrightarrow>
      buildHowCalculatedPopup env (Some c) (Some inp) =
        ''<h3 id="popup-title">How these numbers are calculated for ''
          @ escapeHtml env (country_name c) @ ''</h3>''
        @ inflationSection env (cpi c) inp
        @ ''<div class="popup-section"><h4>Interest input from IMF short-term rate</h4><p>Short-term interest rate is unavailable for this country in the current IMF dataset. This calculator uses inflation-only mode (interestRate = 0).</p></div>''
        @ ''<div class="popup-section"><h4>Loss formulas used on this page</h4><p><code>1-year loss = P * i + P * r</code></p><p><code>loss = P * (1 - 1/(1+i)^n) + (P/(1+i)^n) * ((1+r)^n - 1)</code></p><p>P = amount, i = inflationRate, r = interestRate, n = years</p><p>Total loss = purchasing power erosion from inflation + missed growth from not earning interest.</p></div><p class="popup-source">Based on <a href="https://data.imf.org" target="_blank" rel="noopener noreferrer">IMF Data</a></p>'')
    \<and> buildHowCalculatedPopup env None inputs =
        ''<h3 id="popup-title">How these numbers are calculated</h3><p>Select a country to see concrete inputs and formulas.</p>''
    \<and> buildHowCalculatedPopup env country None =
        ''<h3 id="popup-title">How these numbers are calculated</h3><p>Select a country to see concrete inputs and formulas.</p>''
    \<and> openPopup env None =
        ''<h3 id="popup-title">How these numbers are calculated</h3><p>Select a country to see concrete inputs and formulas.</p>''
    \<and> (getInputs env (Some c) = None \<longrightarrow>
        openPopup env (Some c) =
          ''<h3 id="popup-title">How these numbers are calculated</h3><p>Select a country to see concrete inputs and formulas.</p>'')\<close>
proof -
  have a: \<open>buildHowCalculatedPopup env (Some c) (Some inp) =
        ''<h3 id="popup-title">How these numbers are calculated for ''
          @ escapeHtml env (country_name c) @ ''</h3>''
        @ inflationSection env (cpi c) inp
        @ ''<div class="popup-section"><h4>Interest input from IMF short-term rate</h4><p>Short-term interest rate is unavailable for this country in the current IMF dataset. This calculator uses inflation-only mode (interestRate = 0).</p></div>''
        @ ''<div class="popup-section"><h4>Loss formulas used on this page</h4><p><code>1-year loss = P * i + P * r</code></p><p><code>loss = P * (1 - 1/(1+i)^n) + (P/(1+i)^n) * ((1+r)^n - 1)</code></p><p>P = amount, i = inflationRate, r = interestRate, n = years</p><p>Total loss = purchasing power erosion from inflation + missed growth from not earning interest.</p></div><p class="popup-source">Based on <a href="https://data.imf.org" target="_blank" rel="noopener noreferrer">IMF Data</a></p>''\<close>
    if g: "getInputs env (Some c) = Some inp" and h: "\<not> hasRate inp"
  proof -
    have \<open>buildHowCalculatedPopup env (Some c) (Some inp) =
            ''<h3 id="popup-title">How these numbers are calculated for ''
              @ escapeHtml env (country_name c) @ ''</h3>''
            @ inflationSection env (cpi c) inp
            @ interestSection env c inp
            @ ''<div class="popup-section"><h4>Loss formulas used on this page</h4><p><code>1-year loss = P * i + P * r</code></p><p><code>loss = P * (1 - 1/(1+i)^n) + (P/(1+i)^n) * ((1+r)^n - 1)</code></p><p>P = amount, i = inflationRate, r = interestRate, n = years</p><p>Total loss = purchasing power erosion from inflation + missed growth from not earning interest.</p></div><p class="popup-source">Based on <a href="https://data.imf.org" target="_blank" rel="noopener noreferrer">IMF Data</a></p>''\<close>
      using getInputs_cpi_truthy [OF g]
      by (simp add: buildHowCalculatedPopup_def formulaSection_text)
    then show ?thesis
      unfolding interestSection_no_rate [OF no_rate_parse [OF g h]] .
  qed
  have d: \<open>openPopup env None =
        ''<h3 id="popup-title">How these numbers are calculated</h3><p>Select a country to see concrete inputs and formulas.</p>''\<close>
    by (simp add: openPopup_def popup_no_country)
  have e: \<open>openPopup env (Some c) =
        ''<h3 id="popup-title">How these numbers are calculated</h3><p>Select a country to see concrete inputs and formulas.</p>''\<close>
    if "getInputs env (Some c) = None"
    using that by (simp add: openPopup_def popup_no_inputs)
  show ?thesis
    using a d e popup_no_country [of env inputs] popup_no_inputs [of env country] by blast
qed

theorem popup_rate_unavailable_witness:
  \<open>getInputs exact_env
      (Some (example_country (JNumber (Num 2)) (JNumber (Num 1)) (Prim JUndefined)))
      = Some \<lparr>inflationRate = Num 1, interestRate = Num 0, hasRate = False\<rparr>
   \<and> \<not> hasRate \<lparr>inflationRate = Num 1, interestRate = Num 0, hasRate = False\<rparr>
   \<and> buildHowCalculatedPopup exact_env
        (Some (example_country (JNumber (Num 2)) (JNumber (Num 1)) (Prim JUndefined)))
        (Some \<lparr>inflationRate = Num 1, interestRate = Num 0, hasRate = False\<rparr>) =
        ''<h3 id="popup-title">How these numbers are calculated for ''
          @ escapeHtml exact_env
              (country_name (example_country (JNumber (Num 2)) (JNumber (Num 1)) (Prim JUndefined)))
          @ ''</h3>''
        @ inflationSection exact_env
            (cpi (example_country (JNumber (Num 2)) (JNumber (Num 1)) (Prim JUndefined)))
            \<lparr>inflationRate = Num 1, interestRate = Num 0, hasRate = False\<rparr>
        @ ''<div class="popup-section"><h4>Interest input from IMF short-term rate</h4><p>Short-term interest rate is unavailable for this country in the current IMF dataset. This calculator uses inflation-only mode (interestRate = 0).</p></div>''
        @ ''<div class="popup-section"><h4>Loss formulas used on this page</h4><p><code>1-year loss = P * i + P * r</code></p><p><code>loss = P * (1 - 1/(1+i)^n) + (P/(1+i)^n) * ((1+r)^n - 1)</code></p><p>P = amount, i = inflationRate, r = interestRate, n = years</p><p>Total loss = purchasing power erosion from inflation + missed growth from not earning interest.</p></div><p class="popup-source">Based on <a href="https://data.imf.org" target="_blank" rel="noopener noreferrer">IMF Data</a></p>''
   \<and> getInputs exact_env
        (Some (example_country (JNumber (Num 2)) (JNumber (Num 0)) (Prim JUndefined))) = None
   \<and> openPopup exact_env
        (Some (example_country (JNumber (Num 2)) (JNumber (Num 0)) (Prim JUndefined)))
       = ''<h3 id="popup-title">How these numbers are calculated</h3><p>Select a country to see concrete inputs and formulas.</p>''\<close>
proof -
  let ?inp = "\<lparr>inflationRate = Num 1, interestRate = Num 0, hasRate = False\<rparr>"
  let ?c = "example_country (JNumber (Num 2)) (JNumber (Num 1)) (Prim JUndefined)"
  let ?bad = "example_country (JNumber (Num 2)) (JNumber (Num 0)) (Prim JUndefined)"
  have g: "getInputs exact_env (Some ?c) = Some ?inp"
    using getInputs_example [of 2 1 "Prim JUndefined"]
    by (simp add: parseFiniteNumber_simps)
  have h: "\<not> hasRate ?inp" by simp
  have n: "getInputs exact_env (Some ?bad) = None"
    by (simp add: getInputs_None_iff cpi_data_unusable_def example_country_def)
  show ?thesis
    using popup_rate_unavailable [of exact_env ?c ?inp None None]
      popup_rate_unavailable [of exact_env ?bad ?inp None None] g h n
    by blast
qed

end
